theory Spec2Isabelle
  imports Complex_Main "HOL-Library.AList" "HOL-Library.Sublist" "HOL-Library.Multiset"
begin

section \<open>Strings, dictionaries and configuration\<close>

text \<open>
  A Python \<open>str\<close> is a sequence of Unicode code points, so text is a list of code points
  here (every code point of a Python string is below \<open>0x110000\<close>; the theorems hold for
  every list). \<open>ustr\<close> reads a literal of the source.
\<close>

type_synonym ustring = "nat list"

definition ustr :: "string \<Rightarrow> ustring" where
  "ustr s = map of_char s"

datatype error = ValueError

text \<open>\<open>chr(n)\<close>: the one-character string of code point \<open>n\<close>; ValueError from \<open>0x110000\<close> on.\<close>

definition py_chr :: "nat \<Rightarrow> error + ustring" where
  "py_chr n = (if n < 1114112 then Inr [n] else Inl ValueError)"

text \<open>\<open>sep.join(parts)\<close>.\<close>

fun join :: "ustring \<Rightarrow> ustring list \<Rightarrow> ustring" where
  "join sep [] = []"
| "join sep [x] = x"
| "join sep (x # y # ys) = x @ sep @ join sep (y # ys)"

text \<open>
  A list comprehension whose element expression may raise: the elements are evaluated in
  order and the first exception ends the comprehension.
\<close>

fun comprehend :: "('e + 'a) list \<Rightarrow> 'e + 'a list" where
  "comprehend [] = Inr []"
| "comprehend (x # xs) =
     (case x of
        Inl e \<Rightarrow> Inl e
      | Inr v \<Rightarrow> (case comprehend xs of Inl e \<Rightarrow> Inl e | Inr vs \<Rightarrow> Inr (v # vs)))"

text \<open>
  A Python \<open>dict\<close> is an association list in insertion order; storing under a key that is
  present replaces the value in place (\<open>AList.update\<close>). \<open>d.get(k, default)\<close>:
\<close>

type_synonym ('k, 'v) dict = "('k \<times> 'v) list"

definition dict_get :: "('k, 'v) dict \<Rightarrow> 'k \<Rightarrow> 'v \<Rightarrow> 'v" where
  "dict_get d k dflt = (case map_of d k of None \<Rightarrow> dflt | Some v \<Rightarrow> v)"

text \<open>backend/config.py\<close>

definition COUNCIL_MODELS :: "ustring list" where
  "COUNCIL_MODELS =
     [ustr ''arcee-ai/trinity-mini:free'',
      ustr ''amazon/nova-2-lite-v1:free'',
      ustr ''allenai/olmo-3-32b-think:free'',
      ustr ''tngtech/tng-r1t-chimera:free'']"

definition CHAIRMAN_MODEL :: ustring where
  "CHAIRMAN_MODEL = ustr ''arcee-ai/trinity-mini:free''"

section \<open>Data model\<close>

record message =
  role :: ustring
  content :: ustring

record model_entry =
  model :: ustring

text \<open>\<open>{"model": ..., "response": ...}\<close>: a Stage-1 result and the Stage-3 result.\<close>

record model_response = model_entry +
  response :: ustring

text \<open>\<open>{"model": ..., "ranking": ..., "parsed_ranking": ...}\<close>\<close>

record stage2_result = model_entry +
  ranking :: ustring
  parsed_ranking :: "ustring list"

text \<open>
  The payload of a successful invocation is a dictionary; the stages read its key
  \<open>content\<close> only. A failed invocation is \<open>None\<close>.
\<close>

type_synonym payload = "(ustring, ustring) dict"

type_synonym responses = "(ustring, payload option) dict"

text \<open>The values stored in \<open>metadata\<close>; \<open>'g\<close> is what the rank aggregation returns.\<close>

datatype 'g meta_value =
    MStr ustring
  | MLabelMap "(ustring, ustring) dict"
  | MAggregate 'g

record 'g council_state =
  user_query :: ustring
  stage1_results :: "model_response list"
  stage2_results :: "stage2_result list"
  label_to_model :: "(ustring, ustring) dict"
  stage3_result :: model_response
  metadata :: "(ustring, 'g meta_value) dict"

text \<open>A node returns a dictionary of state keys to new values: a list of updates.\<close>

datatype 'g update =
    Stage1Results "model_response list"
  | Stage2Results "stage2_result list"
  | LabelToModel "(ustring, ustring) dict"
  | Stage3Result model_response
  | Metadata "(ustring, 'g meta_value) dict"

section \<open>Collaborators\<close>

text \<open>
  \<open>backend/openrouter.py\<close> and \<open>backend/utils.py\<close> are imported by the workflow and are
  parameters of the model: any behaviour of the model service, of the ranking parser and of
  the aggregation is a value of this record. Each invocation a node makes is recorded as
  a \<open>call\<close> next to the node's result.
\<close>

record 'g env =
  query_models_parallel :: "ustring list \<Rightarrow> message list \<Rightarrow> responses"
  query_model :: "ustring \<Rightarrow> message list \<Rightarrow> payload option"
  parse_ranking_from_text :: "ustring \<Rightarrow> ustring list"
  calculate_aggregate_rankings ::
    "stage2_result list \<Rightarrow> (ustring, ustring) dict \<Rightarrow> 'g"

datatype call =
    QueryModelsParallel "ustring list" "message list"
  | QueryModel ustring "message list"

section \<open>Stage 1\<close>

text \<open>The loop over \<open>responses.items()\<close> of \<open>stage1_node\<close>.\<close>

fun stage1_collect :: "responses \<Rightarrow> model_response list" where
  "stage1_collect [] = []"
| "stage1_collect ((m, r) # rest) =
     (case r of
        None \<Rightarrow> stage1_collect rest
      | Some p \<Rightarrow> \<lparr>model = m, response = dict_get p (ustr ''content'') []\<rparr> # stage1_collect rest)"

definition stage1_node :: "'g env \<Rightarrow> 'g council_state \<Rightarrow> 'g update list \<times> call list" where
  "stage1_node e st =
     (let messages = [\<lparr>role = ustr ''user'', content = user_query st\<rparr>];
          responses = query_models_parallel e COUNCIL_MODELS messages
      in ([Stage1Results (stage1_collect responses)],
          [QueryModelsParallel COUNCIL_MODELS messages]))"

section \<open>Stage 2\<close>

text \<open>\<open>[chr(65 + i) for i in range(n)]\<close>\<close>

definition make_labels :: "nat \<Rightarrow> error + ustring list" where
  "make_labels n = comprehend (map (\<lambda>i. py_chr (65 + i)) [0..<n])"

text \<open>\<open>{f"Response {label}": result['model'] for label, result in zip(labels, results)}\<close>\<close>

definition make_label_to_model ::
  "ustring list \<Rightarrow> model_response list \<Rightarrow> (ustring, ustring) dict" where
  "make_label_to_model labels results =
     AList.updates (map (\<lambda>label. ustr ''Response '' @ label) labels) (map model results) []"

definition make_responses_text :: "ustring list \<Rightarrow> model_response list \<Rightarrow> ustring" where
  "make_responses_text labels results =
     join (ustr ''\<newline>\<newline>'')
       (map (\<lambda>(label, result). ustr ''Response '' @ label @ ustr '':\<newline>'' @ response result)
          (zip labels results))"

definition ranking_prompt :: "ustring \<Rightarrow> ustring \<Rightarrow> ustring" where
  "ranking_prompt query responses_text =
     ustr ''You are evaluating different responses to the following question:\<newline>\<newline>Question: ''
     @ query
     @ ustr ''\<newline>\<newline>Here are the responses from different models (anonymized):\<newline>\<newline>''
     @ responses_text
     @ ustr ''\<newline>\<newline>Your task:\<newline>1. First, evaluate each response individually.\<newline>2. Then, at the very end, provide a final ranking.\<newline>\<newline>IMPORTANT: Your final ranking MUST be formatted EXACTLY as follows:\<newline>- Start with \"FINAL RANKING:\"\<newline>- List responses from best to worst (e.g., \"1. Response A\")\<newline>\<newline>FINAL RANKING:\<newline>1. Response [Label]\<newline>2. Response [Label]\<newline>...\<newline>''"

text \<open>The loop over \<open>responses.items()\<close> of \<open>stage2_node\<close>.\<close>

fun stage2_collect :: "(ustring \<Rightarrow> ustring list) \<Rightarrow> responses \<Rightarrow> stage2_result list" where
  "stage2_collect parse [] = []"
| "stage2_collect parse ((m, r) # rest) =
     (case r of
        None \<Rightarrow> stage2_collect parse rest
      | Some p \<Rightarrow>
          (let full_text = dict_get p (ustr ''content'') []
           in \<lparr>model = m, ranking = full_text, parsed_ranking = parse full_text\<rparr>
              # stage2_collect parse rest))"

definition stage2_node ::
  "'g env \<Rightarrow> 'g council_state \<Rightarrow> error + ('g update list \<times> call list)" where
  "stage2_node e st =
     (if stage1_results st = [] then
        Inr ([Stage2Results [], LabelToModel [],
              Metadata [(ustr ''error'', MStr (ustr ''No stage 1 results''))]], [])
      else
        (case make_labels (length (stage1_results st)) of
           Inl err \<Rightarrow> Inl err
         | Inr labels \<Rightarrow>
            (let l2m = make_label_to_model labels (stage1_results st);
                 responses_text = make_responses_text labels (stage1_results st);
                 messages = [\<lparr>role = ustr ''user'',
                              content = ranking_prompt (user_query st) responses_text\<rparr>];
                 responses = query_models_parallel e COUNCIL_MODELS messages;
                 results = stage2_collect (parse_ranking_from_text e) responses;
                 aggregate_rankings = calculate_aggregate_rankings e results l2m;
                 meta = [(ustr ''label_to_model'', MLabelMap l2m),
                         (ustr ''aggregate_rankings'', MAggregate aggregate_rankings)]
             in Inr ([Stage2Results results, LabelToModel l2m, Metadata meta],
                     [QueryModelsParallel COUNCIL_MODELS messages]))))"

section \<open>Stage 3\<close>

definition make_stage1_text :: "model_response list \<Rightarrow> ustring" where
  "make_stage1_text results =
     join (ustr ''\<newline>\<newline>'')
       (map (\<lambda>result. ustr ''Model: '' @ model result @ ustr ''\<newline>Response: '' @ response result)
          results)"

definition make_stage2_text :: "stage2_result list \<Rightarrow> ustring" where
  "make_stage2_text results =
     join (ustr ''\<newline>\<newline>'')
       (map (\<lambda>result. ustr ''Model: '' @ model result @ ustr ''\<newline>Ranking: '' @ ranking result)
          results)"

definition chairman_prompt :: "ustring \<Rightarrow> ustring \<Rightarrow> ustring \<Rightarrow> ustring" where
  "chairman_prompt query stage1_text stage2_text =
     ustr ''You are the Chairman of an LLM Council.\<newline>\<newline>Original Question: ''
     @ query
     @ ustr ''\<newline>\<newline>STAGE 1 - Individual Responses:\<newline>''
     @ stage1_text
     @ ustr ''\<newline>\<newline>STAGE 2 - Peer Rankings:\<newline>''
     @ stage2_text
     @ ustr ''\<newline>\<newline>Synthesize all information into a single, comprehensive answer:''"

definition stage3_messages :: "'g council_state \<Rightarrow> message list" where
  "stage3_messages st =
     [\<lparr>role = ustr ''user'',
       content = chairman_prompt (user_query st) (make_stage1_text (stage1_results st))
                   (make_stage2_text (stage2_results st))\<rparr>]"

definition stage3_node :: "'g env \<Rightarrow> 'g council_state \<Rightarrow> 'g update list \<times> call list" where
  "stage3_node e st =
     (if stage1_results st = [] then
        ([Stage3Result \<lparr>model = ustr ''error'', response = ustr ''No responses to synthesize.''\<rparr>],
         [])
      else
        (let messages = stage3_messages st
         in (case query_model e CHAIRMAN_MODEL messages of
               None \<Rightarrow>
                 ([Stage3Result \<lparr>model = CHAIRMAN_MODEL, response = ustr ''Error: Synthesis failed.''\<rparr>],
                  [QueryModel CHAIRMAN_MODEL messages])
             | Some p \<Rightarrow>
                 ([Stage3Result \<lparr>model = CHAIRMAN_MODEL, response = dict_get p (ustr ''content'') []\<rparr>],
                  [QueryModel CHAIRMAN_MODEL messages]))))"

section \<open>The workflow\<close>

text \<open>
  \<open>create_council_graph\<close>: the nodes run in the order stage1, stage2, stage3, and the
  dictionary a node returns replaces the state's values under its keys.
\<close>

fun apply_update :: "'g update \<Rightarrow> 'g council_state \<Rightarrow> 'g council_state" where
  "apply_update (Stage1Results v) st = st\<lparr>stage1_results := v\<rparr>"
| "apply_update (Stage2Results v) st = st\<lparr>stage2_results := v\<rparr>"
| "apply_update (LabelToModel v) st = st\<lparr>label_to_model := v\<rparr>"
| "apply_update (Stage3Result v) st = st\<lparr>stage3_result := v\<rparr>"
| "apply_update (Metadata v) st = st\<lparr>metadata := v\<rparr>"

definition merge :: "'g council_state \<Rightarrow> 'g update list \<Rightarrow> 'g council_state" where
  "merge st us = fold apply_update us st"

definition council_graph ::
  "'g env \<Rightarrow> 'g council_state \<Rightarrow> error + ('g council_state \<times> call list)" where
  "council_graph e st0 =
     (case stage1_node e st0 of (u1, c1) \<Rightarrow>
        (let st1 = merge st0 u1
         in (case stage2_node e st1 of
               Inl err \<Rightarrow> Inl err
             | Inr (u2, c2) \<Rightarrow>
                 (let st2 = merge st1 u2
                  in (case stage3_node e st2 of (u3, c3) \<Rightarrow>
                        Inr (merge st2 u3, c1 @ c2 @ c3))))))"

section \<open>Ranking parser and rank aggregation\<close>

text \<open>
  Modelled from the spec: the Ranking Parser \<open>parse(text)\<close> (the source imports
  \<open>parse_ranking_from_text\<close> from \<open>backend/utils.py\<close>, which is missing). The marker is
  searched from the left, so the first occurrence is found; the text after it is cut into
  lines at the newline character; a line has the form \<open><ordinal>. Response <Letter>\<close> when
  it is a non-empty run of decimal digits, then \<open>. Response \<close>, then one uppercase letter,
  and nothing else.
\<close>

definition MARKER :: ustring where
  "MARKER = ustr ''FINAL RANKING:''"

fun after_marker :: "ustring \<Rightarrow> ustring \<Rightarrow> ustring option" where
  "after_marker mk [] = (if mk = [] then Some [] else None)"
| "after_marker mk (c # cs) =
     (if prefix mk (c # cs) then Some (drop (length mk) (c # cs)) else after_marker mk cs)"

fun split_lines :: "ustring \<Rightarrow> ustring list" where
  "split_lines [] = [[]]"
| "split_lines (c # cs) =
     (if c = 10 then [] # split_lines cs
      else (case split_lines cs of [] \<Rightarrow> [[c]] | l # ls \<Rightarrow> (c # l) # ls))"

definition is_digit :: "nat \<Rightarrow> bool" where
  "is_digit c \<longleftrightarrow> 48 \<le> c \<and> c \<le> 57"

definition is_upper :: "nat \<Rightarrow> bool" where
  "is_upper c \<longleftrightarrow> 65 \<le> c \<and> c \<le> 90"

definition rank_line_label :: "ustring \<Rightarrow> ustring option" where
  "rank_line_label line =
     (let ordinal = takeWhile is_digit line; rest = dropWhile is_digit line
      in if ordinal \<noteq> [] \<and> take 11 rest = ustr ''. Response '' \<and> length rest = 12
            \<and> is_upper (last rest)
         then Some [last rest] else None)"

definition parse :: "ustring \<Rightarrow> ustring list" where
  "parse text =
     (case after_marker MARKER text of
        None \<Rightarrow> []
      | Some rest \<Rightarrow> List.map_filter rank_line_label (split_lines rest))"

text \<open>
  Modelled from the spec: the Rank Aggregator \<open>aggregate(stage2_results, label_to_model)\<close>
  (the source imports \<open>calculate_aggregate_rankings\<close> from \<open>backend/utils.py\<close>, which is
  missing). The spec leaves three choices open, and they are the fields of the policy: the
  score of a position (the position itself, or a monotonic transform of it), the penalty of
  a label that a ranking does not list (it may depend on the number of candidates), and
  whether the scores of a label are summed or averaged. An unparseable (empty) ranking is
  excluded. A label is looked up under its formatted string, and its position in a ranking
  is that of its first occurrence, counted from 1. The entries are produced in the order of
  the label map and sorted by score, ascending, with a stable sort: ties keep label order.
\<close>

record scoring_policy =
  position_score :: "nat \<Rightarrow> rat"
  absent_score :: "nat \<Rightarrow> rat"
  averaged :: bool

fun position_in :: "ustring \<Rightarrow> ustring list \<Rightarrow> nat option" where
  "position_in key [] = None"
| "position_in key (l # ls) =
     (if ustr ''Response '' @ l = key then Some 1 else map_option Suc (position_in key ls))"

definition ranking_score :: "scoring_policy \<Rightarrow> nat \<Rightarrow> ustring \<Rightarrow> ustring list \<Rightarrow> rat" where
  "ranking_score pol n key r =
     (case position_in key r of
        Some p \<Rightarrow> position_score pol p
      | None \<Rightarrow> absent_score pol n)"

definition label_score :: "scoring_policy \<Rightarrow> nat \<Rightarrow> ustring list list \<Rightarrow> ustring \<Rightarrow> rat" where
  "label_score pol n rankings key =
     (let total = sum_list (map (ranking_score pol n key) rankings)
      in if averaged pol then total / of_nat (length rankings) else total)"

definition aggregate ::
  "scoring_policy \<Rightarrow> stage2_result list \<Rightarrow> (ustring, ustring) dict \<Rightarrow> (ustring \<times> rat) list" where
  "aggregate pol results l2m =
     (let rankings = filter (\<lambda>r. r \<noteq> []) (map parsed_ranking results)
      in if rankings = [] then []
         else sort_key snd
                (map (\<lambda>(key, m). (m, label_score pol (length l2m) rankings key)) l2m))"

text \<open>The policy "average rank, an unlisted label counts as one place after the last".\<close>

definition average_rank :: scoring_policy where
  "average_rank = \<lparr>position_score = of_nat, absent_score = (\<lambda>n. of_nat (Suc n)), averaged = True\<rparr>"

text \<open>
  Modelled from the spec: the contract of the Parallel Dispatcher
  (\<open>query_models_parallel\<close> of \<open>backend/openrouter.py\<close>, which is missing): the mapping it
  returns has one entry for each model it was given, a failed model's entry being recorded
  as a failure and not omitted.
\<close>

definition dispatch_contract :: "ustring list \<Rightarrow> responses \<Rightarrow> bool" where
  "dispatch_contract models rs \<longleftrightarrow> distinct (map fst rs) \<and> set (map fst rs) = set models"

section \<open>Scenarios\<close>

text \<open>
  A state before the first stage, and three model services: one that answers every
  invocation with the given text, one that answers with a payload without \<open>content\<close>, and
  one whose every invocation fails.
\<close>

definition fresh_state :: "ustring \<Rightarrow> (ustring \<times> rat) list council_state" where
  "fresh_state q =
     \<lparr>user_query = q, stage1_results = [], stage2_results = [], label_to_model = [],
      stage3_result = \<lparr>model = [], response = []\<rparr>, metadata = []\<rparr>"

definition service :: "(ustring \<Rightarrow> payload option) \<Rightarrow> (ustring \<times> rat) list env" where
  "service answer =
     \<lparr>query_models_parallel = (\<lambda>models messages. map (\<lambda>m. (m, answer m)) models),
      query_model = (\<lambda>m messages. answer m),
      parse_ranking_from_text = parse,
      calculate_aggregate_rankings = aggregate average_rank\<rparr>"

definition answering :: "ustring \<Rightarrow> (ustring \<times> rat) list env" where
  "answering text = service (\<lambda>m. Some [(ustr ''content'', text)])"

definition contentless :: "(ustring \<times> rat) list env" where
  "contentless = service (\<lambda>m. Some [])"

definition failing :: "(ustring \<times> rat) list env" where
  "failing = service (\<lambda>m. None)"

section \<open>Short circuits on an empty Stage-1 result list\<close>

text \<open>
  C2. Whenever the Stage-1 result list of the state is empty, \<open>stage2_node\<close> returns normally
  with an empty Stage-2 result list, an empty label-to-model map and the metadata
  \<open>{"error": "No stage 1 results"}\<close>, and it has made no invocation, whatever the model
  service would have answered.
\<close>

theorem stage2_node_empty:
  assumes "stage1_results st = []"
  shows "stage2_node e st =
           Inr ([Stage2Results [], LabelToModel [],
                 Metadata [(ustr ''error'', MStr (ustr ''No stage 1 results''))]], [])"
  using assms by (simp add: stage2_node_def)

theorem stage2_node_empty_witness:
  "stage1_results (fresh_state (ustr ''Q'')) = []
   \<and> stage2_node (answering (ustr ''hello'')) (fresh_state (ustr ''Q'')) =
         Inr ([Stage2Results [], LabelToModel [],
               Metadata [(ustr ''error'', MStr (ustr ''No stage 1 results''))]], [])"
  using stage2_node_empty [of "fresh_state (ustr ''Q'')" "answering (ustr ''hello'')"]
  by (simp add: fresh_state_def)

text \<open>
  C3. Whenever the Stage-1 result list of the state is empty, \<open>stage3_node\<close> returns the
  failure result with model tag \<open>error\<close> and the text \<open>No responses to synthesize.\<close>; the
  chairman is not invoked (the list of calls is empty) and the node returns a value for
  every environment.
\<close>

theorem stage3_node_empty:
  assumes "stage1_results st = []"
  shows "stage3_node e st =
           ([Stage3Result \<lparr>model = ustr ''error'',
                           response = ustr ''No responses to synthesize.''\<rparr>], [])"
  using assms by (simp add: stage3_node_def)

theorem stage3_node_empty_witness:
  "stage1_results (fresh_state (ustr ''Q'')) = []
   \<and> stage3_node (answering (ustr ''hello'')) (fresh_state (ustr ''Q'')) =
         ([Stage3Result \<lparr>model = ustr ''error'',
                         response = ustr ''No responses to synthesize.''\<rparr>], [])"
  using stage3_node_empty [of "fresh_state (ustr ''Q'')" "answering (ustr ''hello'')"]
  by (simp add: fresh_state_def)

end
